theory Spec2Isabelle
  imports Main
begin

section \<open>Strings\<close>

text \<open>
  The handlers of \<^verbatim>\<open>server.js\<close> normalise their inputs with
  \<^verbatim>\<open>String(x || d).trim().toLowerCase()\<close>. Strings are lists of 8-bit characters, read
  as the code points U+0000 to U+00FF; code points beyond are outside the character type.
  In that range the white space of \<^verbatim>\<open>String.prototype.trim\<close> and of the regular
  expression atom \<^verbatim>\<open>\s\<close> is TAB, LF, VT, FF, CR, SPACE and NO-BREAK SPACE (U+00A0), and
  \<^verbatim>\<open>String.prototype.toLowerCase\<close> folds the letters A to Z and U+00C0 to U+00DE, the
  multiplication sign U+00D7 apart, onto the code point 32 higher.
\<close>

definition js_space :: "char \<Rightarrow> bool" where
  "js_space c \<longleftrightarrow>
     c \<in> set [CHR 0x09, CHR 0x0A, CHR 0x0B, CHR 0x0C, CHR 0x0D, CHR 0x20, CHR 0xA0]"

definition trim :: "string \<Rightarrow> string" where
  "trim s = rev (dropWhile js_space (rev (dropWhile js_space s)))"

definition upper_letters :: string where
  "upper_letters = ''ABCDEFGHIJKLMNOPQRSTUVWXYZ'' @
     [CHR 0xC0, CHR 0xC1, CHR 0xC2, CHR 0xC3, CHR 0xC4, CHR 0xC5, CHR 0xC6, CHR 0xC7,
      CHR 0xC8, CHR 0xC9, CHR 0xCA, CHR 0xCB, CHR 0xCC, CHR 0xCD, CHR 0xCE, CHR 0xCF,
      CHR 0xD0, CHR 0xD1, CHR 0xD2, CHR 0xD3, CHR 0xD4, CHR 0xD5, CHR 0xD6,
      CHR 0xD8, CHR 0xD9, CHR 0xDA, CHR 0xDB, CHR 0xDC, CHR 0xDD, CHR 0xDE]"

definition lower_letters :: string where
  "lower_letters = ''abcdefghijklmnopqrstuvwxyz'' @
     [CHR 0xE0, CHR 0xE1, CHR 0xE2, CHR 0xE3, CHR 0xE4, CHR 0xE5, CHR 0xE6, CHR 0xE7,
      CHR 0xE8, CHR 0xE9, CHR 0xEA, CHR 0xEB, CHR 0xEC, CHR 0xED, CHR 0xEE, CHR 0xEF,
      CHR 0xF0, CHR 0xF1, CHR 0xF2, CHR 0xF3, CHR 0xF4, CHR 0xF5, CHR 0xF6,
      CHR 0xF8, CHR 0xF9, CHR 0xFA, CHR 0xFB, CHR 0xFC, CHR 0xFD, CHR 0xFE]"

definition lower_char :: "char \<Rightarrow> char" where
  "lower_char c =
     (case map_of (zip upper_letters lower_letters) c of
        Some l \<Rightarrow> l
      | None \<Rightarrow> c)"

definition toLowerCase :: "string \<Rightarrow> string" where
  "toLowerCase s = map lower_char s"

text \<open>
  \<^verbatim>\<open>String(req.body?.identifier || '').trim().toLowerCase()\<close>. The identifier field of
  a request, and likewise its code field, is given by the string that
  \<^verbatim>\<open>String(x || '')\<close> yields: the empty string for a value that is missing or falsy (and
  for a truthy value that prints as the empty string), the printed value otherwise.
\<close>

definition normalize_identifier :: "string \<Rightarrow> string" where
  "normalize_identifier raw = toLowerCase (trim raw)"

text \<open>
  The role field has a non-empty default, so what \<^verbatim>\<open>x || d\<close> decides is kept: the
  JSON value is falsy (missing, \<^verbatim>\<open>null\<close>, \<^verbatim>\<open>false\<close>, \<^verbatim>\<open>0\<close>, the empty string), or it is
  truthy and \<^verbatim>\<open>String(x)\<close> is the string given. A truthy value may print as the empty
  string (\<^verbatim>\<open>String([])\<close> is \<^verbatim>\<open>''\<close>), and a string of blanks is truthy.
\<close>

datatype js_field = Falsy | Truthy string

text \<open>\<^verbatim>\<open>String(req.body?.role || d).trim().toLowerCase()\<close>, with the default \<open>d\<close> of the
  endpoint.\<close>

definition normalize_role :: "string \<Rightarrow> js_field \<Rightarrow> string" where
  "normalize_role d raw = toLowerCase (trim (case raw of Falsy \<Rightarrow> d | Truthy r \<Rightarrow> r))"

text \<open>
  The test \<^verbatim>\<open>/^[^\s@]+@[^\s@]+\.[^\s@]+$/.test(identifier)\<close>: the whole string is
  \<open>a @ b . c\<close> with \<open>a\<close>, \<open>b\<close>, \<open>c\<close> non-empty and free of white space and of \<open>@\<close>
  (the dot is itself in the class, so \<open>b\<close> and \<open>c\<close> may contain dots). The positions
  \<open>i\<close> of the \<open>@\<close> and \<open>j\<close> of the dot range over the indices of the string.
\<close>

definition cls :: "char \<Rightarrow> bool" where
  "cls c \<longleftrightarrow> \<not> js_space c \<and> c \<noteq> CHR ''@''"

definition plus_cls :: "string \<Rightarrow> bool" where
  "plus_cls s \<longleftrightarrow> s \<noteq> [] \<and> list_all cls s"

definition email_re :: "string \<Rightarrow> bool" where
  "email_re s \<longleftrightarrow>
     list_ex (\<lambda>i. list_ex (\<lambda>j.
         i < j \<and> s ! i = CHR ''@'' \<and> s ! j = CHR ''.''
       \<and> plus_cls (take i s)
       \<and> plus_cls (take (j - Suc i) (drop (Suc i) s))
       \<and> plus_cls (drop (Suc j) s))
       [0..<length s]) [0..<length s]"

text \<open>\<^verbatim>\<open>!identifier || !re.test(identifier)\<close> is the negation of:\<close>

definition valid_email :: "string \<Rightarrow> bool" where
  "valid_email identifier \<longleftrightarrow> identifier \<noteq> [] \<and> email_re identifier"

text \<open>\<^verbatim>\<open>String(n)\<close> for a non-negative integer: its decimal digits.\<close>

fun digits :: "nat \<Rightarrow> string" where
  "digits n =
     (if n < 10 then [''0123456789'' ! n]
      else digits (n div 10) @ [''0123456789'' ! (n mod 10)])"

declare digits.simps [simp del]

text \<open>
  \<^verbatim>\<open>genCode() = String(Math.floor(100000 + Math.random() * 900000))\<close>. The random
  draw is an argument: \<open>rnd\<close> is the integer part of \<^verbatim>\<open>Math.random() * 900000\<close>, a
  number below 900000.
\<close>

definition genCode :: "nat \<Rightarrow> string" where
  "genCode rnd = digits (100000 + rnd)"

text \<open>\<^verbatim>\<open>s.split(',')\<close>\<close>

fun split_on :: "char \<Rightarrow> string \<Rightarrow> string list" where
  "split_on d [] = [[]]"
| "split_on d (c # cs) =
     (if c = d then [] # split_on d cs
      else (case split_on d cs of
              w # ws \<Rightarrow> (c # w) # ws
            | [] \<Rightarrow> [[c]]))"

section \<open>Configuration, store and responses\<close>

text \<open>
  The resolved configuration: \<^verbatim>\<open>CODE_TTL\<close> and \<^verbatim>\<open>RESEND_COOLDOWN\<close> in seconds,
  \<^verbatim>\<open>JWT_SECRET\<close>, and the text of the environment variable \<^verbatim>\<open>ADMIN_EMAILS\<close>
  (empty when unset).
\<close>

record config =
  CODE_TTL :: int
  RESEND_COOLDOWN :: int
  JWT_SECRET :: string
  ADMIN_EMAILS_env :: string

text \<open>The object that \<^verbatim>\<open>verifyStore\<close> holds for an identifier. Times are the
  milliseconds of \<^verbatim>\<open>Date.now()\<close>.\<close>

record challenge =
  code :: string
  role :: string
  expiresAt :: int
  lastSentAt :: int
  attempts :: nat

type_synonym store = "string \<rightharpoonup> challenge"

text \<open>
  A token as the server sees it: a string that does not decode as a signed token
  (\<open>Malformed\<close> carries the string itself), or the payload and the signature that a
  well-formed token decodes to.
\<close>

record jwt_payload =
  email :: string
  role_claim :: string
  iat :: int
  exp_claim :: "int option"

datatype token = Malformed string | Signed jwt_payload string

datatype jwt_error = TokenExpiredError | JsonWebTokenError | NotBeforeError

text \<open>Every response the four handlers send, and its HTTP status.\<close>

datatype response =
    CodeSent
  | ValidEmailRequired
  | PleaseWait int
  | FailedToSendCode
  | AccessDenied
  | NoCodeRequested
  | CodeExpired
  | TooManyAttempts
  | InvalidCode
  | EmailVerified token string string
  | NoTokenProvided
  | TokenValid string string
  | InvalidOrExpiredToken

fun status :: "response \<Rightarrow> nat" where
  "status CodeSent = 200"
| "status ValidEmailRequired = 400"
| "status (PleaseWait w) = 429"
| "status FailedToSendCode = 500"
| "status AccessDenied = 403"
| "status NoCodeRequested = 400"
| "status CodeExpired = 400"
| "status TooManyAttempts = 429"
| "status InvalidCode = 400"
| "status (EmailVerified t r e) = 200"
| "status NoTokenProvided = 401"
| "status (TokenValid e r) = 200"
| "status InvalidOrExpiredToken = 401"

section \<open>The handlers\<close>

text \<open>\<^verbatim>\<open>Math.ceil(ms / 1000)\<close> on an integer number of milliseconds (the quotient of
  a clock difference by 1000 is far from the range where rounding could reach the next
  integer).\<close>

definition ceil_div_1000 :: "int \<Rightarrow> int" where
  "ceil_div_1000 ms = - ((- ms) div 1000)"

text \<open>
  The cooldown test shared by both send-code handlers:
  \<^verbatim>\<open>if (prev && now - prev.lastSentAt < RESEND_COOLDOWN * 1000)\<close>, and the \<^verbatim>\<open>wait\<close> it
  computes. \<open>None\<close> means the request is not throttled.
\<close>

definition throttle :: "config \<Rightarrow> store \<Rightarrow> int \<Rightarrow> string \<Rightarrow> int option" where
  "throttle cfg st now identifier =
     (case st identifier of
        None \<Rightarrow> None
      | Some prev \<Rightarrow>
          if now - lastSentAt prev < RESEND_COOLDOWN cfg * 1000
          then Some (ceil_div_1000 (RESEND_COOLDOWN cfg * 1000 - (now - lastSentAt prev)))
          else None)"

text \<open>
  \<^verbatim>\<open>POST /auth/send-code\<close>. The arguments beside the store are what the handler reads
  from its environment: the clock, the random draw of \<^verbatim>\<open>genCode\<close>, and whether
  \<^verbatim>\<open>mailer.sendMail\<close> resolves (\<open>delivered\<close>) or rejects. The store is written before the
  mail is sent; a rejected send reaches the \<^verbatim>\<open>catch\<close> block, which only responds.
\<close>

definition send_code ::
  "config \<Rightarrow> store \<Rightarrow> int \<Rightarrow> nat \<Rightarrow> bool \<Rightarrow> string \<Rightarrow> js_field \<Rightarrow> response \<times> store" where
  "send_code cfg st now rnd delivered identifier_raw role_raw =
     (let identifier = normalize_identifier identifier_raw;
          role = normalize_role ''user'' role_raw
      in if \<not> valid_email identifier then (ValidEmailRequired, st)
         else
           (case throttle cfg st now identifier of
              Some wait \<Rightarrow> (PleaseWait wait, st)
            | None \<Rightarrow>
                (let st' = st(identifier \<mapsto>
                       \<lparr>code = genCode rnd, role = role,
                        expiresAt = now + CODE_TTL cfg * 1000,
                        lastSentAt = now, attempts = 0\<rparr>)
                 in if delivered then (CodeSent, st') else (FailedToSendCode, st'))))"

text \<open>
  \<^verbatim>\<open>ADMIN_EMAILS\<close> of \<^verbatim>\<open>POST /auth/admin-send-code\<close>:
  \<^verbatim>\<open>(process.env.ADMIN_EMAILS || '').split(',').map(e => e.trim().toLowerCase()).filter(Boolean)\<close>
\<close>

definition ADMIN_EMAILS :: "config \<Rightarrow> string list" where
  "ADMIN_EMAILS cfg =
     filter (\<lambda>e. e \<noteq> [])
       (map (\<lambda>e. toLowerCase (trim e)) (split_on CHR '','' (ADMIN_EMAILS_env cfg)))"

text \<open>
  \<^verbatim>\<open>POST /auth/admin-send-code\<close>: the default role is \<^verbatim>\<open>'admin'\<close>, and the allow-list
  test stands between the syntax test and the cooldown test.
\<close>

definition admin_send_code ::
  "config \<Rightarrow> store \<Rightarrow> int \<Rightarrow> nat \<Rightarrow> bool \<Rightarrow> string \<Rightarrow> js_field \<Rightarrow> response \<times> store" where
  "admin_send_code cfg st now rnd delivered identifier_raw role_raw =
     (let identifier = normalize_identifier identifier_raw;
          role = normalize_role ''admin'' role_raw
      in if \<not> valid_email identifier then (ValidEmailRequired, st)
         else if length (ADMIN_EMAILS cfg) > 0 \<and> identifier \<notin> set (ADMIN_EMAILS cfg)
         then (AccessDenied, st)
         else
           (case throttle cfg st now identifier of
              Some wait \<Rightarrow> (PleaseWait wait, st)
            | None \<Rightarrow>
                (let st' = st(identifier \<mapsto>
                       \<lparr>code = genCode rnd, role = role,
                        expiresAt = now + CODE_TTL cfg * 1000,
                        lastSentAt = now, attempts = 0\<rparr>)
                 in if delivered then (CodeSent, st') else (FailedToSendCode, st'))))"

text \<open>
  \<^verbatim>\<open>POST /auth/verify-code\<close>. \<open>sign\<close> is \<^verbatim>\<open>jwt.sign\<close> of the jsonwebtoken package
  (payload, secret, \<^verbatim>\<open>expiresIn\<close> in seconds); \<open>now\<close> is the clock reading of the expiry
  test and \<open>now_iat\<close> the later reading that stamps the token. The handler increments
  \<^verbatim>\<open>entry.attempts\<close> on the stored object itself, so the increment is in the store
  on every path that does not delete the entry.
\<close>

definition verify_code ::
  "(jwt_payload \<Rightarrow> string \<Rightarrow> int \<Rightarrow> token) \<Rightarrow> config \<Rightarrow> store \<Rightarrow> int \<Rightarrow> int \<Rightarrow> string \<Rightarrow> string
     \<Rightarrow> response \<times> store" where
  "verify_code sign cfg st now now_iat identifier_raw code_raw =
     (let identifier = normalize_identifier identifier_raw;
          submitted = trim code_raw
      in case st identifier of
           None \<Rightarrow> (NoCodeRequested, st)
         | Some entry0 \<Rightarrow>
             if now > expiresAt entry0 then (CodeExpired, st(identifier := None))
             else
               (let entry = entry0\<lparr>attempts := attempts entry0 + 1\<rparr>
                in if attempts entry > 6 then (TooManyAttempts, st(identifier := None))
                   else if code entry \<noteq> submitted then (InvalidCode, st(identifier \<mapsto> entry))
                   else
                     (let r = (if role entry = [] then ''user'' else role entry);
                          tok = sign \<lparr>email = identifier, role_claim = r,
                                      iat = now_iat div 1000, exp_claim = None\<rparr>
                                     (JWT_SECRET cfg) 86400
                      in (EmailVerified tok r identifier, st(identifier := None)))))"

text \<open>
  \<^verbatim>\<open>POST /auth/verify-token\<close>. \<open>verify\<close> is \<^verbatim>\<open>jwt.verify\<close> of the jsonwebtoken package
  (token, secret, and the clock it reads); an exception it throws is \<open>Inl\<close>. The
  request's token field is absent (\<open>None\<close>) or a token; \<^verbatim>\<open>!token\<close> holds for an absent
  field and for the empty string.
\<close>

definition verify_token ::
  "(token \<Rightarrow> string \<Rightarrow> int \<Rightarrow> jwt_error + jwt_payload) \<Rightarrow> config \<Rightarrow> int \<Rightarrow> token option
     \<Rightarrow> response" where
  "verify_token verify cfg now tok =
     (case tok of
        None \<Rightarrow> NoTokenProvided
      | Some t \<Rightarrow>
          if t = Malformed [] then NoTokenProvided
          else
            (case verify t (JWT_SECRET cfg) now of
               Inr decoded \<Rightarrow> TokenValid (email decoded) (role_claim decoded)
             | Inl e \<Rightarrow> InvalidOrExpiredToken))"

text \<open>
  Successive submit-code requests, each given by its two clock readings, its identifier
  and its code, handled one after the other on the same store.
\<close>

fun verify_codes ::
  "(jwt_payload \<Rightarrow> string \<Rightarrow> int \<Rightarrow> token) \<Rightarrow> config \<Rightarrow> store
     \<Rightarrow> (int \<times> int \<times> string \<times> string) list \<Rightarrow> response list \<times> store" where
  "verify_codes sign cfg st [] = ([], st)"
| "verify_codes sign cfg st ((now, now_iat, identifier_raw, code_raw) # subs) =
     (let (r, st') = verify_code sign cfg st now now_iat identifier_raw code_raw;
          (rs, st'') = verify_codes sign cfg st' subs
      in (r # rs, st''))"

text \<open>
  The server at work: requests arrive one after the other, each with the clock readings
  and the other inputs its handler takes, and each handler runs on the store the
  previous one left. (A handler touches the store only before its first \<^verbatim>\<open>await\<close>,
  so its effect on the store is one step.)
\<close>

datatype request =
    SendCode int nat bool string js_field
  | AdminSendCode int nat bool string js_field
  | VerifyCode int int string string

fun clock :: "request \<Rightarrow> int" where
  "clock (SendCode now rnd delivered identifier_raw role_raw) = now"
| "clock (AdminSendCode now rnd delivered identifier_raw role_raw) = now"
| "clock (VerifyCode now now_iat identifier_raw code_raw) = now"

fun handle ::
  "(jwt_payload \<Rightarrow> string \<Rightarrow> int \<Rightarrow> token) \<Rightarrow> config \<Rightarrow> store \<Rightarrow> request \<Rightarrow> response \<times> store" where
  "handle sign cfg st (SendCode now rnd delivered identifier_raw role_raw) =
     send_code cfg st now rnd delivered identifier_raw role_raw"
| "handle sign cfg st (AdminSendCode now rnd delivered identifier_raw role_raw) =
     admin_send_code cfg st now rnd delivered identifier_raw role_raw"
| "handle sign cfg st (VerifyCode now now_iat identifier_raw code_raw) =
     verify_code sign cfg st now now_iat identifier_raw code_raw"

fun serve ::
  "(jwt_payload \<Rightarrow> string \<Rightarrow> int \<Rightarrow> token) \<Rightarrow> config \<Rightarrow> store \<Rightarrow> request list \<Rightarrow> store" where
  "serve sign cfg st [] = st"
| "serve sign cfg st (r # rs) = serve sign cfg (snd (handle sign cfg st r)) rs"

section \<open>The token service\<close>

text \<open>
  Modelled from the spec: \<^verbatim>\<open>jwt.sign\<close> belongs to the jsonwebtoken package, whose
  code is not part of the sources. The spec's token service mints a signed token
  embedding identifier, role and issuance time, with a fixed validity window from
  minting, signed with the server-held secret. \<open>mac\<close> is the keyed signature function;
  signing adds the expiry claim \<open>iat + expiresIn\<close>, in seconds.
\<close>

definition jwt_sign ::
  "(string \<Rightarrow> jwt_payload \<Rightarrow> string) \<Rightarrow> jwt_payload \<Rightarrow> string \<Rightarrow> int \<Rightarrow> token" where
  "jwt_sign mac payload secret expiresIn =
     (let p = payload\<lparr>exp_claim := Some (iat payload + expiresIn)\<rparr>
      in Signed p (mac secret p))"

text \<open>
  Modelled from the spec: \<^verbatim>\<open>jwt.verify\<close> belongs to the jsonwebtoken package, whose
  code is not part of the sources. The spec's token service validates by verifying
  signature and expiry and returns the embedded claims on success. Verification fails on
  a string that is no token, on a signature that is not the one the secret gives, and
  once the clock, in whole seconds, has reached the expiry claim.
\<close>

definition jwt_verify ::
  "(string \<Rightarrow> jwt_payload \<Rightarrow> string) \<Rightarrow> token \<Rightarrow> string \<Rightarrow> int \<Rightarrow> jwt_error + jwt_payload" where
  "jwt_verify mac t secret now =
     (case t of
        Malformed s \<Rightarrow> Inl JsonWebTokenError
      | Signed p sg \<Rightarrow>
          if sg \<noteq> mac secret p then Inl JsonWebTokenError
          else (case exp_claim p of
                  None \<Rightarrow> Inr p
                | Some e \<Rightarrow> if now div 1000 \<ge> e then Inl TokenExpiredError else Inr p))"

text \<open>
  The spec's \<open>mint\<close>: the \<^verbatim>\<open>jwt.sign\<close> call of the submit-code handler, for an
  identifier and a role, at clock reading \<open>now_iat\<close>.
\<close>

definition mint ::
  "(jwt_payload \<Rightarrow> string \<Rightarrow> int \<Rightarrow> token) \<Rightarrow> config \<Rightarrow> int \<Rightarrow> string \<Rightarrow> string \<Rightarrow> token" where
  "mint sign cfg now_iat identifier r =
     sign \<lparr>email = identifier, role_claim = r, iat = now_iat div 1000, exp_claim = None\<rparr>
       (JWT_SECRET cfg) 86400"

section \<open>A configuration and a signature function for examples\<close>

text \<open>The defaults of \<^verbatim>\<open>server.js\<close>: a TTL of 600 s, a cooldown of 60 s, the fallback
  secret, and no allow-list.\<close>

definition default_cfg :: config where
  "default_cfg = \<lparr>CODE_TTL = 600, RESEND_COOLDOWN = 60,
                   JWT_SECRET = ''fallback-secret-change-this'', ADMIN_EMAILS_env = []\<rparr>"

definition toy_mac :: "string \<Rightarrow> jwt_payload \<Rightarrow> string" where
  "toy_mac secret p = secret @ email p @ role_claim p"

text \<open>A pending challenge as the send-code handler stores it at time 0 under the
  defaults, for the generated code 123456.\<close>

definition fresh_challenge :: challenge where
  "fresh_challenge = \<lparr>code = ''123456'', role = ''user'', expiresAt = 600000,
                       lastSentAt = 0, attempts = 0\<rparr>"

text \<open>The store after a first send-code request whose role field is two blanks.\<close>

definition blank_role_store :: store where
  "blank_role_store =
     snd (send_code default_cfg Map.empty 0 23456 True ''a@b.co''
            (Truthy [CHR 0x20, CHR 0x20]))"

text \<open>The defaults with the allow-list of the spec's scenario.\<close>

definition admin_cfg :: config where
  "admin_cfg = default_cfg\<lparr>ADMIN_EMAILS_env := ''x@y.com''\<rparr>"

section \<open>Evaluation lemmas\<close>

lemma normalize_a_b_co: "normalize_identifier ''a@b.co'' = ''a@b.co''"
  by (simp add: normalize_identifier_def trim_def toLowerCase_def
      lower_char_def upper_letters_def lower_letters_def js_space_def)

lemma valid_a_b_co: "valid_email ''a@b.co''"
  by code_simp

lemma genCode_23456: "genCode 23456 = ''123456''"
  by (simp add: genCode_def digits.simps)

lemma trim_123456: "trim ''123456'' = ''123456''"
  by (simp add: trim_def js_space_def)

lemma trim_000000: "trim ''000000'' = ''000000''"
  by (simp add: trim_def js_space_def)

lemma default_cfg_simps:
  "CODE_TTL default_cfg = 600" "RESEND_COOLDOWN default_cfg = 60"
  "JWT_SECRET default_cfg = ''fallback-secret-change-this''" "ADMIN_EMAILS_env default_cfg = []"
  by (simp_all add: default_cfg_def)

lemma normalize_x_y_com: "normalize_identifier ''x@y.com'' = ''x@y.com''"
  by (simp add: normalize_identifier_def trim_def toLowerCase_def
      lower_char_def upper_letters_def lower_letters_def js_space_def)

lemma normalize_z_y_com: "normalize_identifier ''z@y.com'' = ''z@y.com''"
  by (simp add: normalize_identifier_def trim_def toLowerCase_def
      lower_char_def upper_letters_def lower_letters_def js_space_def)

lemma valid_x_y_com: "valid_email ''x@y.com''"
  by code_simp

lemma valid_z_y_com: "valid_email ''z@y.com''"
  by code_simp

lemma ADMIN_EMAILS_admin_cfg: "ADMIN_EMAILS admin_cfg = [''x@y.com'']"
  by (simp add: ADMIN_EMAILS_def admin_cfg_def default_cfg_def trim_def toLowerCase_def
      lower_char_def upper_letters_def lower_letters_def js_space_def)

lemma ADMIN_EMAILS_default_cfg: "ADMIN_EMAILS default_cfg = []"
  by (simp add: ADMIN_EMAILS_def default_cfg_def trim_def toLowerCase_def)

lemma normalize_role_user: "normalize_role d (Truthy ''user'') = ''user''"
  by (simp add: normalize_role_def trim_def toLowerCase_def
      lower_char_def upper_letters_def lower_letters_def js_space_def)

lemma normalize_role_ADMIN: "normalize_role d (Truthy ''ADMIN'') = ''admin''"
  by (simp add: normalize_role_def trim_def toLowerCase_def
      lower_char_def upper_letters_def lower_letters_def js_space_def)

text \<open>A truthy role that prints as the empty string is stored as the empty string; only a
  falsy one takes the default.\<close>

lemma normalize_role_empty: "normalize_role d (Truthy []) = []"
  by (simp add: normalize_role_def trim_def toLowerCase_def)

lemma normalize_role_Falsy: "normalize_role ''user'' Falsy = ''user''"
  by (simp add: normalize_role_def trim_def toLowerCase_def
      lower_char_def upper_letters_def lower_letters_def js_space_def)

text \<open>The no-break space is trimmed, and the letters beyond ASCII are folded.\<close>

lemma normalize_nbsp_A_B_CO: "normalize_identifier (CHR 0xA0 # ''A@B.CO'') = ''a@b.co''"
  by (simp add: normalize_identifier_def trim_def toLowerCase_def
      lower_char_def upper_letters_def lower_letters_def js_space_def)

lemma normalize_nbsp_X_y_com: "normalize_identifier (CHR 0xA0 # ''X@y.com'') = ''x@y.com''"
  by (simp add: normalize_identifier_def trim_def toLowerCase_def
      lower_char_def upper_letters_def lower_letters_def js_space_def)

lemma normalize_E_acute:
  "normalize_identifier (CHR 0xC9 # ''@b.co'') = CHR 0xE9 # ''@b.co''"
  "normalize_identifier (CHR 0xD7 # ''@b.co'') = CHR 0xD7 # ''@b.co''"
  by (simp_all add: normalize_identifier_def trim_def toLowerCase_def
      lower_char_def upper_letters_def lower_letters_def
      js_space_def upper_letters_def lower_letters_def)

lemma trim_nbsp_123456: "trim (CHR 0xA0 # ''123456'') = ''123456''"
  by (simp add: trim_def js_space_def)

text \<open>A no-break space inside an address fails the syntax test.\<close>

lemma invalid_inner_nbsp: "\<not> valid_email (CHR ''a'' # CHR 0xA0 # ''b@c.d'')"
  by code_simp


section \<open>Generated codes\<close>

lemma digit_not_space: "n < 10 \<Longrightarrow> \<not> js_space (''0123456789'' ! n)"
proof -
  assume "n < 10"
  then have "n \<in> {0, 1, 2, 3, 4, 5, 6, 7, 8, 9}" by auto
  then show ?thesis by (auto simp: js_space_def)
qed

lemma digits_not_space: "c \<in> set (digits n) \<Longrightarrow> \<not> js_space c"
proof (induction n rule: digits.induct)
  case (1 n)
  show ?case
  proof (cases "n < 10")
    case True
    with "1.prems" show ?thesis
      by (simp add: digits.simps [of n] digit_not_space)
  next
    case False
    have "n mod 10 < 10" by simp
    with False "1.prems" "1.IH" show ?thesis
      by (auto simp: digits.simps [of n] digit_not_space)
  qed
qed

lemma digits_not_Nil: "digits n \<noteq> []"
  by (simp add: digits.simps [of n])

lemma trim_no_outer_space:
  assumes "s \<noteq> []" and "\<not> js_space (hd s)" and "\<not> js_space (last s)"
  shows "trim s = s"
proof -
  from assms have "dropWhile js_space s = s"
    by (cases s) simp_all
  moreover from assms have "dropWhile js_space (rev s) = rev s"
    by (cases "rev s") (simp_all add: last_rev [symmetric] hd_rev)
  ultimately show ?thesis by (simp add: trim_def)
qed

text \<open>A generated code survives the \<^verbatim>\<open>trim\<close> of the submit-code handler: the code
  that was mailed, submitted as it is, is compared as it is.\<close>

lemma trim_genCode: "trim (genCode rnd) = genCode rnd"
proof -
  have ne: "digits (100000 + rnd) \<noteq> []" by (rule digits_not_Nil)
  then have "hd (digits (100000 + rnd)) \<in> set (digits (100000 + rnd))"
    and "last (digits (100000 + rnd)) \<in> set (digits (100000 + rnd))"
    by simp_all
  then have "\<not> js_space (hd (digits (100000 + rnd)))"
    and "\<not> js_space (last (digits (100000 + rnd)))"
    by (auto dest: digits_not_space)
  with ne show ?thesis
    unfolding genCode_def by (rule trim_no_outer_space)
qed

section \<open>The submit-code flow\<close>

lemma verify_code_wrong:
  assumes "st (normalize_identifier identifier_raw) = Some e"
    and "now \<le> expiresAt e" and "attempts e < 6" and "trim code_raw \<noteq> code e"
  shows "verify_code sign cfg st now now_iat identifier_raw code_raw
           = (InvalidCode, st(normalize_identifier identifier_raw \<mapsto> e\<lparr>attempts := Suc (attempts e)\<rparr>))"
  using assms by (auto simp: verify_code_def)

lemma verify_code_lockout:
  assumes "st (normalize_identifier identifier_raw) = Some e"
    and "now \<le> expiresAt e" and "6 \<le> attempts e"
  shows "verify_code sign cfg st now now_iat identifier_raw code_raw
           = (TooManyAttempts, st(normalize_identifier identifier_raw := None))"
  using assms by (simp add: verify_code_def)

lemma verify_codes_wrong:
  assumes "st k = Some e"
    and "attempts e + length subs \<le> 6"
    and "\<forall>(now, now_iat, i, c) \<in> set subs.
           normalize_identifier i = k \<and> now \<le> expiresAt e \<and> trim c \<noteq> code e"
  shows "verify_codes sign cfg st subs
           = (replicate (length subs) InvalidCode,
              st(k \<mapsto> e\<lparr>attempts := attempts e + length subs\<rparr>))"
  using assms
proof (induction subs arbitrary: st e)
  case Nil
  then have "st(k \<mapsto> e) = st" by (simp add: map_upd_triv)
  then show ?case by simp
next
  case (Cons sub subs)
  obtain now now_iat i c where sub: "sub = (now, now_iat, i, c)"
    by (cases sub) auto
  let ?e = "e\<lparr>attempts := Suc (attempts e)\<rparr>"
  let ?st = "st(k \<mapsto> ?e)"
  from Cons.prems sub have here: "normalize_identifier i = k" "now \<le> expiresAt e" "trim c \<noteq> code e"
    and a: "attempts e < 6"
    by auto
  with Cons.prems(1) have step:
    "verify_code sign cfg st now now_iat i c = (InvalidCode, ?st)"
    using verify_code_wrong [of st i e now c sign cfg now_iat] by simp
  have rest: "verify_codes sign cfg ?st subs
          = (replicate (length subs) InvalidCode,
             ?st(k \<mapsto> ?e\<lparr>attempts := attempts ?e + length subs\<rparr>))"
  proof (rule Cons.IH)
    show "?st k = Some ?e" by simp
    show "attempts ?e + length subs \<le> 6" using Cons.prems(2) by simp
    show "\<forall>(now, now_iat, i, c) \<in> set subs.
            normalize_identifier i = k \<and> now \<le> expiresAt ?e \<and> trim c \<noteq> code ?e"
      using Cons.prems(3) by auto
  qed
  then have "verify_codes sign cfg ?st subs
          = (replicate (length subs) InvalidCode,
             st(k \<mapsto> e\<lparr>attempts := attempts e + length (sub # subs)\<rparr>))"
    by simp
  then show ?case
    unfolding sub verify_codes.simps step by (simp del: fun_upd_apply)
qed

subsection \<open>Identifiers without a pending challenge\<close>

text \<open>
  C10. The submit-code handler does not validate the syntax of its identifier: for every
  input string, empty or malformed or well-formed, it trims and lower-cases the
  identifier and looks it up. When the store has no entry under the normalised
  identifier the response is the no-pending-challenge error ("No code requested for this
  email", status 400) and the store is unchanged; and on no store and no input is the
  response the validation error of the request-code flow.
\<close>

theorem verify_code_no_entry:
  assumes "st (toLowerCase (trim identifier_raw)) = None"
  shows "verify_code sign cfg st now now_iat identifier_raw code_raw = (NoCodeRequested, st)
       \<and> fst (verify_code sign cfg st' now now_iat identifier_raw code_raw) \<noteq> ValidEmailRequired"
  using assms
  by (simp add: verify_code_def normalize_identifier_def Let_def split: option.splits)

theorem verify_code_no_entry_witness:
  "verify_code (jwt_sign toy_mac) default_cfg Map.empty 5 5 ''not an email'' ''123456''
     = (NoCodeRequested, Map.empty)
   \<and> verify_code (jwt_sign toy_mac) default_cfg Map.empty 5 5 [] ''123456''
     = (NoCodeRequested, Map.empty)
   \<and> verify_code (jwt_sign toy_mac) default_cfg [''x@y.com'' \<mapsto> fresh_challenge] 5 5
       (CHR 0xA0 # ''A@B.CO'') ''123456''
     = (NoCodeRequested, [''x@y.com'' \<mapsto> fresh_challenge])"
  using verify_code_no_entry [of Map.empty "''not an email''" "jwt_sign toy_mac" default_cfg 5 5
      "''123456''"]
    verify_code_no_entry [of Map.empty "[]" "jwt_sign toy_mac" default_cfg 5 5 "''123456''"]
    verify_code_no_entry [of "[''x@y.com'' \<mapsto> fresh_challenge]" "CHR 0xA0 # ''A@B.CO''"
      "jwt_sign toy_mac" default_cfg 5 5 "''123456''"]
  by (simp add: trim_def toLowerCase_def js_space_def
      lower_char_def upper_letters_def lower_letters_def)

subsection \<open>Expiry\<close>

text \<open>
  C4. For every stored challenge, a submit-code call at a time strictly after
  \<open>expiresAt\<close>, with any submitted code and whatever the attempt count, deletes the
  challenge and fails with the expiry error; a retry for the same identifier, at any
  time and with any code, then fails with the no-pending-challenge error and leaves the
  store without the challenge.
\<close>

theorem verify_code_expired:
  assumes "st (normalize_identifier identifier_raw) = Some e"
    and "expiresAt e < now"
    and "normalize_identifier retry_raw = normalize_identifier identifier_raw"
  shows "verify_code sign cfg st now now_iat identifier_raw code_raw
           = (CodeExpired, st(normalize_identifier identifier_raw := None))
       \<and> verify_code sign cfg (st(normalize_identifier identifier_raw := None)) now' now_iat' retry_raw code'
           = (NoCodeRequested, st(normalize_identifier identifier_raw := None))"
  using assms by (simp add: verify_code_def)

theorem verify_code_expired_witness:
  "verify_code (jwt_sign toy_mac) default_cfg
       [''a@b.co'' \<mapsto> \<lparr>code = ''123456'', role = ''user'', expiresAt = 600000,
                       lastSentAt = 0, attempts = 0\<rparr>]
       600001 600001 ''a@b.co'' ''123456''
     = (CodeExpired, Map.empty)
   \<and> verify_code (jwt_sign toy_mac) default_cfg Map.empty 600002 600002 ''a@b.co'' ''123456''
     = (NoCodeRequested, Map.empty)"
  using verify_code_expired [of
      "[''a@b.co'' \<mapsto> \<lparr>code = ''123456'', role = ''user'', expiresAt = 600000,
                        lastSentAt = 0, attempts = 0\<rparr>]"
      "''a@b.co''"
      "\<lparr>code = ''123456'', role = ''user'', expiresAt = 600000, lastSentAt = 0, attempts = 0\<rparr>"
      600001 "''a@b.co''" "jwt_sign toy_mac" default_cfg 600001 "''123456''" 600002 600002
      "''123456''"]
  by (simp add: normalize_a_b_co)

subsection \<open>The attempt ceiling\<close>

text \<open>
  C2. For every stored challenge, submit-code calls before expiry that carry a wrong
  code return the invalid-code error, one after the other, as long as the attempt count
  stays within the ceiling of 6, and each leaves the challenge stored with \<open>attempts\<close>
  one higher: after \<open>n\<close> of them the count has grown by \<open>n\<close>. For a fresh challenge
  (\<open>attempts = 0\<close>) these are exactly 6 calls. The submission that follows them, the
  7th of a fresh challenge, returns the too-many-attempts error whatever its code
  (the stored one included) and deletes the challenge.
\<close>

theorem six_wrong_then_lockout:
  assumes "st k = Some e"
    and "attempts e + length subs = 6"
    and "\<forall>(now, now_iat, i, c) \<in> set subs.
           normalize_identifier i = k \<and> now \<le> expiresAt e \<and> trim c \<noteq> code e"
    and "n \<le> length subs"
    and "normalize_identifier i7 = k" and "now7 \<le> expiresAt e"
  shows "verify_codes sign cfg st (take n subs)
           = (replicate n InvalidCode, st(k \<mapsto> e\<lparr>attempts := attempts e + n\<rparr>))
       \<and> verify_codes sign cfg st subs
           = (replicate (length subs) InvalidCode, st(k \<mapsto> e\<lparr>attempts := 6\<rparr>))
       \<and> verify_code sign cfg (st(k \<mapsto> e\<lparr>attempts := 6\<rparr>)) now7 now_iat7 i7 c7
           = (TooManyAttempts, st(k := None))"
proof (intro conjI)
  have wrong: "\<forall>(now, now_iat, i, c) \<in> set (take n subs).
          normalize_identifier i = k \<and> now \<le> expiresAt e \<and> trim c \<noteq> code e"
    using assms(3) by (auto dest: in_set_takeD)
  have bound: "attempts e + length (take n subs) \<le> 6"
    using assms(2,4) by simp
  from assms(1) bound wrong have "verify_codes sign cfg st (take n subs)
      = (replicate (length (take n subs)) InvalidCode,
         st(k \<mapsto> e\<lparr>attempts := attempts e + length (take n subs)\<rparr>))"
    by (rule verify_codes_wrong)
  then show "verify_codes sign cfg st (take n subs)
      = (replicate n InvalidCode, st(k \<mapsto> e\<lparr>attempts := attempts e + n\<rparr>))"
    using assms(4) by (simp add: min_absorb2)
next
  have "verify_codes sign cfg st subs
      = (replicate (length subs) InvalidCode,
         st(k \<mapsto> e\<lparr>attempts := attempts e + length subs\<rparr>))"
    using assms(1,2,3) by (intro verify_codes_wrong) simp_all
  then show "verify_codes sign cfg st subs
      = (replicate (length subs) InvalidCode, st(k \<mapsto> e\<lparr>attempts := 6\<rparr>))"
    using assms(2) by simp
next
  let ?st = "st(k \<mapsto> e\<lparr>attempts := 6\<rparr>)"
  have "verify_code sign cfg ?st now7 now_iat7 i7 c7
          = (TooManyAttempts, ?st(normalize_identifier i7 := None))"
  proof (rule verify_code_lockout)
    show "?st (normalize_identifier i7) = Some (e\<lparr>attempts := 6\<rparr>)" using assms(5) by simp
    show "now7 \<le> expiresAt (e\<lparr>attempts := 6\<rparr>)" using assms(6) by simp
    show "6 \<le> attempts (e\<lparr>attempts := 6\<rparr>)" by simp
  qed
  then show "verify_code sign cfg ?st now7 now_iat7 i7 c7 = (TooManyAttempts, st(k := None))"
    using assms(5) by simp
qed

theorem six_wrong_then_lockout_witness:
  "verify_codes (jwt_sign toy_mac) default_cfg [''a@b.co'' \<mapsto> fresh_challenge]
       (replicate 3 (1000, 1000, ''a@b.co'', ''000000''))
     = (replicate 3 InvalidCode, [''a@b.co'' \<mapsto> fresh_challenge\<lparr>attempts := 3\<rparr>])
   \<and> verify_codes (jwt_sign toy_mac) default_cfg [''a@b.co'' \<mapsto> fresh_challenge]
       (replicate 6 (1000, 1000, ''a@b.co'', ''000000''))
     = (replicate 6 InvalidCode, [''a@b.co'' \<mapsto> fresh_challenge\<lparr>attempts := 6\<rparr>])
   \<and> verify_code (jwt_sign toy_mac) default_cfg
       [''a@b.co'' \<mapsto> fresh_challenge\<lparr>attempts := 6\<rparr>] 2000 2000 ''a@b.co'' ''123456''
     = (TooManyAttempts, Map.empty)"
  using six_wrong_then_lockout [of "[''a@b.co'' \<mapsto> fresh_challenge]" "''a@b.co''"
      fresh_challenge "replicate 6 (1000, 1000, ''a@b.co'', ''000000'')" 3 "''a@b.co''" 2000
      "jwt_sign toy_mac" default_cfg 2000 "''123456''"]
  by (simp add: normalize_a_b_co trim_000000 fresh_challenge_def)

subsection \<open>One-shot consumption\<close>

text \<open>
  C3, as amended. For every stored challenge, a submit-code call made at a time not
  after \<open>expiresAt\<close>, with \<open>attempts\<close> below the ceiling and with a code that, once
  trimmed, is the stored code (as the mailed code is, by \<open>trim_genCode\<close>), succeeds: it
  returns the minted token, the identifier, and the challenge's role, or \<open>user\<close> when
  the stored role is the empty string, and it deletes the challenge. Any later
  submit-code call for the same identifier, a replay of the same code within its TTL
  included, fails with the no-pending-challenge error.
\<close>

theorem verify_code_one_shot:
  assumes "st (normalize_identifier identifier_raw) = Some e"
    and "now \<le> expiresAt e" and "attempts e < 6" and "trim code_raw = code e"
    and "normalize_identifier retry_raw = normalize_identifier identifier_raw"
  shows "verify_code sign cfg st now now_iat identifier_raw code_raw
           = (EmailVerified
                (mint sign cfg now_iat (normalize_identifier identifier_raw)
                   (if role e = [] then ''user'' else role e))
                (if role e = [] then ''user'' else role e)
                (normalize_identifier identifier_raw),
              st(normalize_identifier identifier_raw := None))
       \<and> verify_code sign cfg (st(normalize_identifier identifier_raw := None)) now' now_iat' retry_raw code'
           = (NoCodeRequested, st(normalize_identifier identifier_raw := None))"
  using assms by (auto simp: verify_code_def mint_def Let_def)

theorem verify_code_one_shot_witness:
  "verify_code (jwt_sign toy_mac) default_cfg [''a@b.co'' \<mapsto> fresh_challenge]
       1000 1000 ''a@b.co'' ''123456''
     = (EmailVerified (mint (jwt_sign toy_mac) default_cfg 1000 ''a@b.co'' ''user'')
          ''user'' ''a@b.co'',
        Map.empty)
   \<and> verify_code (jwt_sign toy_mac) default_cfg Map.empty 1001 1001 ''a@b.co'' ''123456''
     = (NoCodeRequested, Map.empty)"
  using verify_code_one_shot [of "[''a@b.co'' \<mapsto> fresh_challenge]" "''a@b.co''"
      fresh_challenge 1000 "''123456''" "''a@b.co''" "jwt_sign toy_mac" default_cfg 1000
      1001 1001 "''123456''"]
  by (simp add: normalize_a_b_co trim_123456 fresh_challenge_def)

text \<open>
  The claim as written promises the challenge's role in the response. A send-code
  request whose role field is blank stores the empty role; the submit-code call with
  the right code then answers with the role \<open>user\<close>, which is not the stored role.
\<close>

theorem verify_code_role_counterexample:
  "blank_role_store ''a@b.co''
     = Some \<lparr>code = ''123456'', role = [], expiresAt = 600000, lastSentAt = 0, attempts = 0\<rparr>
   \<and> verify_code (jwt_sign toy_mac) default_cfg blank_role_store 1000 1000 ''a@b.co'' ''123456''
     = (EmailVerified (mint (jwt_sign toy_mac) default_cfg 1000 ''a@b.co'' ''user'')
          ''user'' ''a@b.co'',
        Map.empty)
   \<and> ''user'' \<noteq> role \<lparr>code = ''123456'', role = [], expiresAt = 600000, lastSentAt = 0,
                          attempts = 0\<rparr>"
  by (simp add: blank_role_store_def send_code_def verify_code_def mint_def throttle_def Let_def
      normalize_a_b_co valid_a_b_co genCode_23456 trim_123456 default_cfg_simps
      normalize_role_def trim_def toLowerCase_def js_space_def)

section \<open>The request-code flow\<close>

lemma ceil_div_1000_bounds:
  "1000 * (ceil_div_1000 ms - 1) < ms \<and> ms \<le> 1000 * ceil_div_1000 ms"
proof -
  define q where "q = (- ms) div 1000"
  define r where "r = (- ms) mod 1000"
  have "1000 * q + r = - ms"
    unfolding q_def r_def by (rule mult_div_mod_eq)
  moreover have "0 \<le> r" and "r < 1000"
    unfolding r_def by simp_all
  ultimately have "1000 * (- q - 1) < ms \<and> ms \<le> 1000 * (- q)"
    by (simp add: algebra_simps)
  then show ?thesis
    unfolding ceil_div_1000_def q_def .
qed

lemma send_code_not_throttled:
  assumes "valid_email (normalize_identifier identifier_raw)"
    and "throttle cfg st now (normalize_identifier identifier_raw) = None"
  shows "send_code cfg st now rnd delivered identifier_raw role_raw
           = (if delivered then CodeSent else FailedToSendCode,
              st(normalize_identifier identifier_raw \<mapsto>
                   \<lparr>code = genCode rnd, role = normalize_role ''user'' role_raw,
                    expiresAt = now + CODE_TTL cfg * 1000, lastSentAt = now, attempts = 0\<rparr>))"
  using assms by (simp add: send_code_def Let_def)

lemma send_code_cases:
  "send_code cfg st now rnd delivered identifier_raw role_raw = (ValidEmailRequired, st)
   \<or> (\<exists>wait. send_code cfg st now rnd delivered identifier_raw role_raw = (PleaseWait wait, st))
   \<or> send_code cfg st now rnd delivered identifier_raw role_raw
        = (if delivered then CodeSent else FailedToSendCode,
           st(normalize_identifier identifier_raw \<mapsto>
                \<lparr>code = genCode rnd, role = normalize_role ''user'' role_raw,
                 expiresAt = now + CODE_TTL cfg * 1000, lastSentAt = now, attempts = 0\<rparr>))"
  by (auto simp: send_code_def Let_def split: option.splits)

subsection \<open>Cooldown\<close>

text \<open>
  C5. For every valid identifier with a stored challenge, a request-code call at time
  \<open>now\<close> with \<open>now - lastSentAt < RESEND_COOLDOWN * 1000\<close> fails with the throttling
  error and leaves the store as it was. The reported wait is the ceiling of the remaining
  milliseconds divided by 1000, that is the least number of whole seconds that covers
  them; it is positive, and it is at most the configured cooldown in seconds, the clock
  being monotonic as the spec has it: \<open>now\<close> is not before the \<open>lastSentAt\<close> that an
  earlier reading of the clock stored (\<open>serve_lastSentAt\<close> below).
\<close>

theorem send_code_throttled:
  assumes "valid_email (normalize_identifier identifier_raw)"
    and "st (normalize_identifier identifier_raw) = Some prev"
    and "now - lastSentAt prev < RESEND_COOLDOWN cfg * 1000"
    and "lastSentAt prev \<le> now"
    and "wait = ceil_div_1000 (RESEND_COOLDOWN cfg * 1000 - (now - lastSentAt prev))"
  shows "send_code cfg st now rnd delivered identifier_raw role_raw = (PleaseWait wait, st)
       \<and> 1000 * (wait - 1) < RESEND_COOLDOWN cfg * 1000 - (now - lastSentAt prev)
       \<and> RESEND_COOLDOWN cfg * 1000 - (now - lastSentAt prev) \<le> 1000 * wait
       \<and> 0 < wait \<and> wait \<le> RESEND_COOLDOWN cfg"
proof -
  let ?ms = "RESEND_COOLDOWN cfg * 1000 - (now - lastSentAt prev)"
  have b: "1000 * (wait - 1) < ?ms" "?ms \<le> 1000 * wait"
    using ceil_div_1000_bounds [of ?ms] assms(5) by simp_all
  have "0 < ?ms" using assms(3) by simp
  with b(2) have pos: "0 < wait" by simp
  have "?ms \<le> RESEND_COOLDOWN cfg * 1000" using assms(4) by simp
  with b(1) have le: "wait \<le> RESEND_COOLDOWN cfg" by (simp add: algebra_simps)
  have "send_code cfg st now rnd delivered identifier_raw role_raw = (PleaseWait wait, st)"
    using assms(1,2,3,5) by (simp add: send_code_def throttle_def Let_def)
  with b pos le show ?thesis by simp
qed

theorem send_code_throttled_witness:
  "send_code default_cfg [''a@b.co'' \<mapsto> fresh_challenge] 1500 7 True ''a@b.co''
       (Truthy ''user'')
     = (PleaseWait 59, [''a@b.co'' \<mapsto> fresh_challenge])
   \<and> (0::int) < 59 \<and> (59::int) \<le> RESEND_COOLDOWN default_cfg"
  using send_code_throttled [of "''a@b.co''" "[''a@b.co'' \<mapsto> fresh_challenge]"
      fresh_challenge 1500 default_cfg 59 7 True "Truthy ''user''"]
  by (simp add: normalize_a_b_co valid_a_b_co fresh_challenge_def default_cfg_simps
      ceil_div_1000_def)

text \<open>
  Where the clock hypothesis of C5 comes from: on a store that the handlers have built
  from the empty one, every \<open>lastSentAt\<close> is the clock reading of an earlier request.
\<close>

lemma handle_lastSentAt:
  assumes "\<forall>k e. st k = Some e \<longrightarrow> lastSentAt e \<le> now"
    and "clock r \<le> now"
    and "snd (handle sign cfg st r) k = Some e"
  shows "lastSentAt e \<le> now"
proof (cases r)
  case (SendCode t rnd delivered identifier_raw role_raw)
  with assms show ?thesis
    by (auto simp: send_code_def Let_def split: if_splits option.splits)
next
  case (AdminSendCode t rnd delivered identifier_raw role_raw)
  with assms show ?thesis
    by (auto simp: admin_send_code_def Let_def split: if_splits option.splits)
next
  case (VerifyCode t t_iat identifier_raw code_raw)
  with assms show ?thesis
    by (auto simp: verify_code_def Let_def split: if_splits option.splits)
qed

lemma serve_lastSentAt_from:
  assumes "\<forall>k e. st k = Some e \<longrightarrow> lastSentAt e \<le> now"
    and "\<forall>r \<in> set rs. clock r \<le> now"
  shows "\<forall>k e. serve sign cfg st rs k = Some e \<longrightarrow> lastSentAt e \<le> now"
  using assms
proof (induction rs arbitrary: st)
  case Nil
  then show ?case by simp
next
  case (Cons r rs)
  have "\<forall>k e. snd (handle sign cfg st r) k = Some e \<longrightarrow> lastSentAt e \<le> now"
    using Cons.prems handle_lastSentAt [of st now r sign cfg] by simp
  then show ?case using Cons.IH Cons.prems(2) by simp
qed

lemma serve_lastSentAt:
  assumes "\<forall>r \<in> set rs. clock r \<le> now"
    and "serve sign cfg Map.empty rs k = Some prev"
  shows "lastSentAt prev \<le> now"
  using serve_lastSentAt_from [of Map.empty now rs sign cfg] assms by simp

subsection \<open>Issuance\<close>

text \<open>
  C6. The store is a map, so an identifier has at most one challenge. Every request-code
  call that succeeds replaces whatever the identifier had by a challenge built from this
  request alone: the freshly generated code, the requested role (normalised, \<open>user\<close>
  when none is given), \<open>expiresAt = now + CODE_TTL * 1000\<close>, \<open>lastSentAt = now\<close> and
  \<open>attempts = 0\<close>. The other identifiers keep their entries.
\<close>

theorem send_code_overwrites:
  assumes "fst (send_code cfg st now rnd delivered identifier_raw role_raw) = CodeSent"
  shows "snd (send_code cfg st now rnd delivered identifier_raw role_raw)
           = st(normalize_identifier identifier_raw \<mapsto>
                  \<lparr>code = genCode rnd, role = normalize_role ''user'' role_raw,
                   expiresAt = now + CODE_TTL cfg * 1000, lastSentAt = now, attempts = 0\<rparr>)"
  using assms send_code_cases [of cfg st now rnd delivered identifier_raw role_raw]
  by (auto split: if_splits)

theorem send_code_overwrites_witness:
  "snd (send_code default_cfg [''a@b.co'' \<mapsto> fresh_challenge\<lparr>attempts := 4\<rparr>]
          60000 23456 True (CHR 0xA0 # ''A@B.CO'') (Truthy ''ADMIN''))
     = [''a@b.co'' \<mapsto> \<lparr>code = ''123456'', role = ''admin'', expiresAt = 660000,
                       lastSentAt = 60000, attempts = 0\<rparr>]
   \<and> snd (send_code default_cfg Map.empty 0 23456 True ''a@b.co'' (Truthy []))
     = [''a@b.co'' \<mapsto> \<lparr>code = ''123456'', role = [], expiresAt = 600000,
                       lastSentAt = 0, attempts = 0\<rparr>]"
proof -
  have sent: "fst (send_code default_cfg [''a@b.co'' \<mapsto> fresh_challenge\<lparr>attempts := 4\<rparr>]
          60000 23456 True (CHR 0xA0 # ''A@B.CO'') (Truthy ''ADMIN'')) = CodeSent"
    by (simp add: send_code_def throttle_def Let_def normalize_nbsp_A_B_CO valid_a_b_co
        fresh_challenge_def default_cfg_simps)
  have sent': "fst (send_code default_cfg Map.empty 0 23456 True ''a@b.co'' (Truthy []))
          = CodeSent"
    by (simp add: send_code_def throttle_def Let_def normalize_a_b_co valid_a_b_co)
  show ?thesis
    using send_code_overwrites [OF sent] send_code_overwrites [OF sent']
    by (simp add: normalize_nbsp_A_B_CO normalize_a_b_co genCode_23456 default_cfg_simps
        normalize_role_ADMIN normalize_role_empty)
qed

subsection \<open>Delivery failure\<close>

text \<open>
  C1, as amended. In the request-code flow the challenge is stored before the
  Notification Sender is called. If the delivery call fails, the flow aborts with the
  delivery error (status 500) and the store keeps the challenge just written: the
  identifier maps to the new challenge, with \<open>lastSentAt = now\<close>, and every other
  identifier has the entry it had before. A further request for the identifier inside
  the cooldown is therefore throttled.
\<close>

theorem send_code_delivery_failure:
  assumes "valid_email (normalize_identifier identifier_raw)"
    and "throttle cfg st now (normalize_identifier identifier_raw) = None"
    and "st' = st(normalize_identifier identifier_raw \<mapsto>
                    \<lparr>code = genCode rnd, role = normalize_role ''user'' role_raw,
                     expiresAt = now + CODE_TTL cfg * 1000, lastSentAt = now, attempts = 0\<rparr>)"
    and "now' - now < RESEND_COOLDOWN cfg * 1000"
  shows "send_code cfg st now rnd False identifier_raw role_raw = (FailedToSendCode, st')
       \<and> status FailedToSendCode = 500
       \<and> send_code cfg st' now' rnd' delivered' identifier_raw role_raw'
           = (PleaseWait (ceil_div_1000 (RESEND_COOLDOWN cfg * 1000 - (now' - now))), st')"
  using assms send_code_not_throttled [of identifier_raw cfg st now rnd False role_raw]
  by (simp add: send_code_def throttle_def Let_def)

theorem send_code_delivery_failure_witness:
  "send_code default_cfg Map.empty 0 23456 False ''a@b.co'' (Truthy ''user'')
     = (FailedToSendCode, [''a@b.co'' \<mapsto> fresh_challenge])
   \<and> send_code default_cfg [''a@b.co'' \<mapsto> fresh_challenge] 1500 7 True ''a@b.co''
       (Truthy ''user'')
     = (PleaseWait 59, [''a@b.co'' \<mapsto> fresh_challenge])"
  using send_code_delivery_failure [of "''a@b.co''" default_cfg Map.empty 0
      "[''a@b.co'' \<mapsto> fresh_challenge]" 23456 "Truthy ''user''" 1500 7 True
      "Truthy ''user''"]
  by (simp add: normalize_a_b_co valid_a_b_co genCode_23456 normalize_role_user
      fresh_challenge_def default_cfg_simps throttle_def ceil_div_1000_def)

text \<open>
  The claim as written: after a send-code request whose delivery fails, the store holds
  for the identifier what it held before. On the empty store it held nothing before and
  holds a challenge after, and the next request one second later is refused for 59 more
  seconds.
\<close>

theorem send_code_delivery_failure_counterexample:
  "fst (send_code default_cfg Map.empty 0 23456 False ''a@b.co'' (Truthy ''user''))
       = FailedToSendCode
   \<and> snd (send_code default_cfg Map.empty 0 23456 False ''a@b.co'' (Truthy ''user'')) ''a@b.co''
       = Some fresh_challenge
   \<and> snd (send_code default_cfg Map.empty 0 23456 False ''a@b.co'' (Truthy ''user'')) ''a@b.co''
       \<noteq> Map.empty ''a@b.co''
   \<and> fst (send_code default_cfg
            (snd (send_code default_cfg Map.empty 0 23456 False ''a@b.co'' (Truthy ''user'')))
            1000 7 True ''a@b.co'' (Truthy ''user'')) = PleaseWait 59"
  by (simp add: send_code_def throttle_def Let_def normalize_a_b_co valid_a_b_co
      genCode_23456 normalize_role_user fresh_challenge_def default_cfg_simps
      ceil_div_1000_def)

subsection \<open>The admin variant\<close>

text \<open>
  C9. The admin variant tests the allow-list after the syntax of the identifier. For a
  request that passes the syntax test: whenever the configured allow-list is non-empty
  and the normalised identifier is not on it, the request fails with the forbidden error
  (status 403), which is not the validation error (status 400), and the store is not
  modified. For an identifier on the list, and for any identifier when the list is empty,
  the request proceeds as the ordinary request-code flow does, the default role, taken
  for a falsy role field, being \<open>admin\<close> in place of \<open>user\<close>.
\<close>

theorem admin_send_code_allow_list:
  "(valid_email (normalize_identifier identifier_raw) \<and> ADMIN_EMAILS cfg \<noteq> []
      \<and> normalize_identifier identifier_raw \<notin> set (ADMIN_EMAILS cfg)
     \<longrightarrow> admin_send_code cfg st now rnd delivered identifier_raw role_raw = (AccessDenied, st))
   \<and> (ADMIN_EMAILS cfg = [] \<or> normalize_identifier identifier_raw \<in> set (ADMIN_EMAILS cfg)
     \<longrightarrow> admin_send_code cfg st now rnd delivered identifier_raw role_raw
           = send_code cfg st now rnd delivered identifier_raw
               (case role_raw of Falsy \<Rightarrow> Truthy ''admin'' | Truthy r \<Rightarrow> Truthy r))
   \<and> AccessDenied \<noteq> ValidEmailRequired
   \<and> status AccessDenied = 403 \<and> status ValidEmailRequired = 400"
  by (auto simp: admin_send_code_def send_code_def normalize_role_def Let_def
      split: js_field.splits)

theorem admin_send_code_allow_list_witness:
  "admin_send_code admin_cfg Map.empty 0 23456 True ''z@y.com'' Falsy
       = (AccessDenied, Map.empty)
   \<and> admin_send_code admin_cfg Map.empty 0 23456 True (CHR 0xA0 # ''X@y.com'') Falsy
       = send_code admin_cfg Map.empty 0 23456 True (CHR 0xA0 # ''X@y.com'') (Truthy ''admin'')
   \<and> fst (send_code admin_cfg Map.empty 0 23456 True (CHR 0xA0 # ''X@y.com'')
            (Truthy ''admin'')) = CodeSent
   \<and> admin_send_code default_cfg Map.empty 0 23456 True ''z@y.com'' (Truthy [])
       = send_code default_cfg Map.empty 0 23456 True ''z@y.com'' (Truthy [])"
  using admin_send_code_allow_list [of "''z@y.com''" admin_cfg Map.empty 0 23456 True Falsy]
    admin_send_code_allow_list [of "CHR 0xA0 # ''X@y.com''" admin_cfg Map.empty 0 23456 True
      Falsy]
    admin_send_code_allow_list [of "''z@y.com''" default_cfg Map.empty 0 23456 True "Truthy []"]
  by (simp add: normalize_nbsp_X_y_com normalize_z_y_com valid_x_y_com valid_z_y_com
      ADMIN_EMAILS_admin_cfg ADMIN_EMAILS_default_cfg send_code_def throttle_def Let_def)

section \<open>Tokens\<close>

lemma mint_jwt_sign:
  "mint (jwt_sign mac) cfg now_iat identifier r
     = Signed \<lparr>email = identifier, role_claim = r, iat = now_iat div 1000,
               exp_claim = Some (now_iat div 1000 + 86400)\<rparr>
         (mac (JWT_SECRET cfg)
            \<lparr>email = identifier, role_claim = r, iat = now_iat div 1000,
             exp_claim = Some (now_iat div 1000 + 86400)\<rparr>)"
  by (simp add: mint_def jwt_sign_def Let_def)

lemma seconds_shift: "(t + s * 1000) div 1000 = t div 1000 + (s :: int)"
  by simp

text \<open>
  C7. For every identifier and role, a token minted at clock reading \<open>now_iat\<close>
  carries the issue time \<open>now_iat div 1000\<close> and is valid for the 86400 seconds from
  it. Validating it at a reading \<open>now\<close> whose whole seconds lie inside that window
  returns the embedded identifier and role; at any later reading it returns the invalid
  outcome. In milliseconds: the token is accepted at the moment of minting and up to
  86399 seconds after it, and refused once 24 hours have elapsed.
\<close>

theorem token_round_trip:
  "verify_token (jwt_verify mac) cfg now (Some (mint (jwt_sign mac) cfg now_iat identifier r))
     = (if now div 1000 < now_iat div 1000 + 86400 then TokenValid identifier r
        else InvalidOrExpiredToken)
   \<and> (now \<le> now_iat + 86399000
     \<longrightarrow> verify_token (jwt_verify mac) cfg now
           (Some (mint (jwt_sign mac) cfg now_iat identifier r)) = TokenValid identifier r)
   \<and> (now_iat + 86400000 \<le> now
     \<longrightarrow> verify_token (jwt_verify mac) cfg now
           (Some (mint (jwt_sign mac) cfg now_iat identifier r)) = InvalidOrExpiredToken)"
proof -
  let ?v = "verify_token (jwt_verify mac) cfg now
              (Some (mint (jwt_sign mac) cfg now_iat identifier r))"
  have main: "?v = (if now div 1000 < now_iat div 1000 + 86400 then TokenValid identifier r
                    else InvalidOrExpiredToken)"
    by (simp add: verify_token_def jwt_verify_def mint_jwt_sign)
  have early: "now div 1000 < now_iat div 1000 + 86400" if "now \<le> now_iat + 86399000"
  proof -
    from that have "now div 1000 \<le> (now_iat + 86399 * 1000) div 1000"
      by (intro zdiv_mono1) simp_all
    then have "now div 1000 \<le> now_iat div 1000 + 86399"
      by (simp only: seconds_shift)
    then show ?thesis by simp
  qed
  have late: "\<not> now div 1000 < now_iat div 1000 + 86400" if "now_iat + 86400000 \<le> now"
  proof -
    from that have "(now_iat + 86400 * 1000) div 1000 \<le> now div 1000"
      by (intro zdiv_mono1) simp_all
    then have "now_iat div 1000 + 86400 \<le> now div 1000"
      by (simp only: seconds_shift)
    then show ?thesis by simp
  qed
  from main early late show ?thesis by simp
qed

theorem token_round_trip_witness:
  "verify_token (jwt_verify toy_mac) default_cfg 1999
       (Some (mint (jwt_sign toy_mac) default_cfg 1999 ''a@b.co'' ''user''))
     = TokenValid ''a@b.co'' ''user''
   \<and> verify_token (jwt_verify toy_mac) default_cfg 86401999
       (Some (mint (jwt_sign toy_mac) default_cfg 1999 ''a@b.co'' ''user''))
     = InvalidOrExpiredToken"
  using token_round_trip [of toy_mac default_cfg 1999 1999 "''a@b.co''" "''user''"]
    token_round_trip [of toy_mac default_cfg 86401999 1999 "''a@b.co''" "''user''"]
  by simp

text \<open>
  C8. Every token that reaches token validation and fails it, because it is expired,
  because its signature is bad, or because it is malformed (whatever exception
  \<^verbatim>\<open>jwt.verify\<close> throws), gets one and the same response: status 401 with the
  message "Invalid or expired token". The exception is not looked at.
\<close>

theorem verify_token_generic_failure:
  assumes "verify t (JWT_SECRET cfg) now = Inl e"
    and "t \<noteq> Malformed []"
  shows "verify_token verify cfg now (Some t) = InvalidOrExpiredToken"
  using assms by (simp add: verify_token_def)

theorem verify_token_generic_failure_witness:
  "verify_token (jwt_verify toy_mac) default_cfg 86400000
       (Some (mint (jwt_sign toy_mac) default_cfg 0 ''a@b.co'' ''user''))
     = InvalidOrExpiredToken
   \<and> verify_token (jwt_verify toy_mac) default_cfg 0
       (Some (Signed \<lparr>email = ''a@b.co'', role_claim = ''admin'', iat = 0,
                      exp_claim = Some 86400\<rparr> ''forged''))
     = InvalidOrExpiredToken
   \<and> verify_token (jwt_verify toy_mac) default_cfg 0 (Some (Malformed ''abc''))
     = InvalidOrExpiredToken"
  using verify_token_generic_failure [of "jwt_verify toy_mac"
      "mint (jwt_sign toy_mac) default_cfg 0 ''a@b.co'' ''user''" default_cfg 86400000
      TokenExpiredError]
    verify_token_generic_failure [of "jwt_verify toy_mac"
      "Signed \<lparr>email = ''a@b.co'', role_claim = ''admin'', iat = 0,
               exp_claim = Some 86400\<rparr> ''forged''" default_cfg 0 JsonWebTokenError]
    verify_token_generic_failure [of "jwt_verify toy_mac" "Malformed ''abc''" default_cfg 0
      JsonWebTokenError]
  by (simp add: jwt_verify_def mint_jwt_sign toy_mac_def default_cfg_simps)

section \<open>Inputs beyond ASCII\<close>

text \<open>
  The handlers on inputs with a no-break space and upper-case letters: an identifier and
  a code padded with U+00A0 are trimmed as by blanks, so the submit-code call finds the
  challenge stored under \<open>a@b.co\<close>, verifies and deletes it; a no-break space inside the
  identifier fails the syntax test of send-code, which then stores nothing.
\<close>

lemma verify_code_nbsp_padded:
  "verify_code (jwt_sign toy_mac) default_cfg [''a@b.co'' \<mapsto> fresh_challenge] 1000 1000
       (CHR 0xA0 # ''A@B.CO'') (CHR 0xA0 # ''123456'')
     = (EmailVerified (mint (jwt_sign toy_mac) default_cfg 1000 ''a@b.co'' ''user'')
          ''user'' ''a@b.co'',
        Map.empty)"
  by (simp add: verify_code_def mint_def Let_def normalize_nbsp_A_B_CO trim_nbsp_123456
      fresh_challenge_def)

lemma normalize_inner_nbsp:
  "normalize_identifier (CHR ''a'' # CHR 0xA0 # ''b@c.d'') = CHR ''a'' # CHR 0xA0 # ''b@c.d''"
  by (simp add: normalize_identifier_def trim_def toLowerCase_def js_space_def
      lower_char_def upper_letters_def lower_letters_def)

lemma send_code_inner_nbsp:
  "send_code default_cfg Map.empty 0 23456 delivered (CHR ''a'' # CHR 0xA0 # ''b@c.d'') role_raw
     = (ValidEmailRequired, Map.empty)"
  using invalid_inner_nbsp by (simp add: send_code_def Let_def normalize_inner_nbsp)

end
